theory Spec2Isabelle
  imports Complex_Main
begin

section \<open>Values shared by the two source files\<close>

text \<open>
  Errors are values. \<open>AttributeError\<close>, \<open>TypeError\<close> and \<open>ValueError\<close> are the
  Python exceptions the modelled statements can raise; \<open>LoadMismatch missing unexpected\<close>
  is the error a strict \<open>load_state_dict\<close> of a plain module reports. The last two
  constructors are the error kinds named by the specification's error design; no path of
  the source constructs them.
\<close>

datatype py_error =
    AttributeError
  | TypeError
  | ValueError
  | LoadMismatch "string list" "string list"
  | ConfigurationError
  | DoubleWrapError

section \<open>peft/lora.py: the LoRA transform\<close>

datatype dropout_pos = Pre | Post

text \<open>The keyword arguments of the call \<open>ParallelLinearAdapter(...)\<close> in \<open>LoRA.transform\<close>.\<close>

record adapter_args =
  in_features :: int
  out_features :: int
  dim :: int
  activation :: string
  norm_position :: "string option"
  norm_type :: "string option"
  column_init_method :: string
  row_init_method :: string
  gather_output :: bool
  input_is_parallel :: bool
  dropout :: real
  dropout_position :: dropout_pos
  alpha :: int

text \<open>
  A parameter is a value with its \<open>requires_grad\<close> flag. A module is either a plain module
  (integer attributes such as \<open>in_features\<close>, named parameters, named children in
  declaration order) or an \<open>AdapterParallelAdd\<close>, whose only members are the two
  sub-modules \<open>to_wrap\<close> and \<open>adapter\<close>.
\<close>

type_synonym tensor = int

type_synonym param = "tensor \<times> bool"

datatype module =
    Module "(string \<times> int) list" "(string \<times> param) list" "(string \<times> module) list"
  | AdapterParallelAdd module module

text \<open>
  Reading an integer attribute \<open>m.a\<close>. The wrapper class defines no attribute besides its
  two sub-modules and forwards no lookup to them, so \<open>m.in_features\<close> on a wrapper raises.
\<close>

fun getattr :: "module \<Rightarrow> string \<Rightarrow> py_error + int" where
  "getattr (Module attrs ps cs) a =
     (case map_of attrs a of None \<Rightarrow> Inl AttributeError | Some v \<Rightarrow> Inr v)"
| "getattr (AdapterParallelAdd b a') a = Inl AttributeError"

record LoRA =
  target_modules :: "string list"
  lora_dim :: int
  lora_alpha :: int
  lora_dropout :: real
  lora_dropout_position :: dropout_pos

text \<open>Python's \<open>name in xs\<close> for a name that defaults to \<open>None\<close> and a list of strings.\<close>

fun name_in :: "string option \<Rightarrow> string list \<Rightarrow> bool" where
  "name_in None xs = False"
| "name_in (Some n) xs = (n \<in> set xs)"

definition lora_args :: "LoRA \<Rightarrow> int \<Rightarrow> int \<Rightarrow> bool \<Rightarrow> adapter_args" where
  "lora_args cfg i out par =
     \<lparr> in_features = i, out_features = out, dim = lora_dim cfg,
       activation = ''identity'', norm_position = None, norm_type = None,
       column_init_method = ''normal'', row_init_method = ''zero'',
       gather_output = False, input_is_parallel = par,
       dropout = lora_dropout cfg, dropout_position = lora_dropout_position cfg,
       alpha = lora_alpha cfg \<rparr>"

text \<open>
  \<open>LoRA.transform(m, name, prefix)\<close>. \<open>tp_size\<close> is the tensor-parallel world size the
  source reads from \<open>parallel_state\<close>; \<open>mk\<close> is the constructor \<open>ParallelLinearAdapter\<close>,
  which lives outside the modelled files. \<open>prefix\<close> only feeds the log line and is
  dropped. The branches and the order of the attribute reads are the source's.
\<close>

definition transform ::
  "int \<Rightarrow> (adapter_args \<Rightarrow> module) \<Rightarrow> LoRA \<Rightarrow> module \<Rightarrow> string option \<Rightarrow> py_error + module" where
  "transform tp_size mk cfg m name =
     (if name_in name (target_modules cfg) then
        (if name_in name [''linear_qkv'', ''linear_fc1''] then
           (case getattr m ''in_features'' of Inl e \<Rightarrow> Inl e | Inr i \<Rightarrow>
            case getattr m ''out_features'' of Inl e \<Rightarrow> Inl e | Inr out \<Rightarrow>
              Inr (AdapterParallelAdd m (mk (lora_args cfg i (out * tp_size) False))))
         else
           (case getattr m ''in_features'' of Inl e \<Rightarrow> Inl e | Inr i \<Rightarrow>
            case getattr m ''out_features'' of Inl e \<Rightarrow> Inl e | Inr out \<Rightarrow>
              Inr (AdapterParallelAdd m (mk (lora_args cfg (i * tp_size) out True)))))
      else Inr m)"


section \<open>peft/lora.py: the forward pass of the wrapper\<close>

text \<open>
  Python values that flow through \<open>AdapterParallelAdd.forward\<close>: a tensor, a tuple, or
  \<open>None\<close>. Tensors are kept abstract: a type with an addition.
\<close>

datatype 't pyval = Tensor 't | Tuple "'t pyval list" | PyNone

text \<open>
  The statement \<open>a, b = v\<close>. A tuple unpacks when it has two items. A tensor is iterated
  along its first dimension; \<open>rows t\<close> is that iteration, \<open>None\<close> for a tensor of
  dimension zero, which cannot be iterated.
\<close>

fun unpack2 :: "('t \<Rightarrow> 't list option) \<Rightarrow> 't pyval \<Rightarrow> py_error + ('t pyval \<times> 't pyval)" where
  "unpack2 rows (Tuple [a, b]) = Inr (a, b)"
| "unpack2 rows (Tuple xs) = Inl ValueError"
| "unpack2 rows (Tensor t) =
     (case rows t of
        None \<Rightarrow> Inl TypeError
      | Some [a, b] \<Rightarrow> Inr (Tensor a, Tensor b)
      | Some xs \<Rightarrow> Inl ValueError)"
| "unpack2 rows PyNone = Inl TypeError"

text \<open>\<open>isinstance(v, tuple) and len(v) == 2\<close>, with the two items when it holds.\<close>

fun as_pair :: "'t pyval \<Rightarrow> ('t pyval \<times> 't pyval) option" where
  "as_pair (Tuple [a, b]) = Some (a, b)"
| "as_pair v = None"

text \<open>The operator \<open>+\<close>: tensors add, tuples concatenate, anything else is a type error.\<close>

fun py_add :: "('t::plus) pyval \<Rightarrow> 't pyval \<Rightarrow> py_error + 't pyval" where
  "py_add (Tensor a) (Tensor b) = Inr (Tensor (a + b))"
| "py_add (Tuple xs) (Tuple ys) = Inr (Tuple (xs @ ys))"
| "py_add v w = Inl TypeError"

text \<open>
  \<open>AdapterParallelAdd.forward(x)\<close>; \<open>to_wrap\<close> and \<open>adapter\<close> are the forward functions of
  the two sub-modules.
\<close>

definition forward ::
  "('t \<Rightarrow> 't list option) \<Rightarrow> ('t pyval \<Rightarrow> py_error + 't pyval) \<Rightarrow>
   ('t pyval \<Rightarrow> py_error + 't pyval) \<Rightarrow> ('t::plus) pyval \<Rightarrow> py_error + 't pyval" where
  "forward rows to_wrap adapter x =
     (case to_wrap x of Inl e \<Rightarrow> Inl e | Inr r \<Rightarrow>
      case unpack2 rows r of Inl e \<Rightarrow> Inl e | Inr (linear_output, bias) \<Rightarrow>
        (case as_pair linear_output of
           Some (linear_output', layernorm_output) \<Rightarrow>
             (case adapter layernorm_output of Inl e \<Rightarrow> Inl e | Inr adapter_output \<Rightarrow>
              case py_add linear_output' adapter_output of Inl e \<Rightarrow> Inl e | Inr s \<Rightarrow>
                Inr (Tuple [s, bias]))
         | None \<Rightarrow>
             (case adapter x of Inl e \<Rightarrow> Inl e | Inr adapter_output \<Rightarrow>
              case py_add linear_output adapter_output of Inl e \<Rightarrow> Inl e | Inr s \<Rightarrow>
                Inr (Tuple [s, bias]))))"

section \<open>adapter/base.py: state dictionaries of the wrapper\<close>

text \<open>
  A state dictionary maps a key to a tensor or to a nested dictionary. It is an
  association list in insertion order; a Python dictionary has each key once.
\<close>

datatype sval = STensor tensor | SDict "(string \<times> sval) list"

type_synonym state_dict = "(string \<times> sval) list"

text \<open>\<open>d[k] = v\<close>: replace the value in place, or append the new key.\<close>

fun dict_set :: "string \<Rightarrow> sval \<Rightarrow> state_dict \<Rightarrow> state_dict" where
  "dict_set k v [] = [(k, v)]"
| "dict_set k v ((k', v') # d) = (if k' = k then (k, v) # d else (k', v') # dict_set k v d)"

text \<open>Removing a key, as \<open>d.pop(k)\<close> does to \<open>d\<close>.\<close>

fun dict_del :: "string \<Rightarrow> state_dict \<Rightarrow> state_dict" where
  "dict_del k [] = []"
| "dict_del k ((k', v') # d) = (if k' = k then dict_del k d else (k', v') # dict_del k d)"

definition dict_keys :: "state_dict \<Rightarrow> string list" where
  "dict_keys d = map fst d"

text \<open>
  The two sub-modules of a wrapper are plain modules of the tensor library. For state
  export and import such a module is its named tensors, in registration order, each name
  once.
\<close>

type_synonym nn_module = "(string \<times> tensor) list"

text \<open>
  The library's \<open>state_dict(destination, prefix)\<close> of a plain module: every tensor is
  written into \<open>destination\<close> under \<open>prefix + name\<close>, and \<open>destination\<close> is returned.
\<close>

fun nn_state_dict :: "nn_module \<Rightarrow> state_dict \<Rightarrow> string \<Rightarrow> state_dict" where
  "nn_state_dict [] destination prefix = destination"
| "nn_state_dict ((k, t) # m) destination prefix =
     nn_state_dict m (dict_set (prefix @ k) (STensor t) destination) prefix"

text \<open>
  The library's \<open>load_state_dict(state_dict, strict)\<close> of a plain module. Keys of the
  module absent from the dictionary are missing, keys of the dictionary that the module
  does not have are unexpected, and a value that is not a tensor cannot be copied. A
  strict load raises when any of the three lists is non-empty, a lenient one when the
  third is. Otherwise each tensor found in the dictionary replaces the module's. What the
  module holds after a raise is not modelled.
\<close>

definition missing_keys :: "nn_module \<Rightarrow> state_dict \<Rightarrow> string list" where
  "missing_keys m sd = filter (\<lambda>k. map_of sd k = None) (map fst m)"

definition unexpected_keys :: "nn_module \<Rightarrow> state_dict \<Rightarrow> string list" where
  "unexpected_keys m sd = filter (\<lambda>k. k \<notin> set (map fst m)) (dict_keys sd)"

fun is_dict :: "sval option \<Rightarrow> bool" where
  "is_dict (Some (SDict d)) = True"
| "is_dict v = False"

definition uncopyable_keys :: "nn_module \<Rightarrow> state_dict \<Rightarrow> string list" where
  "uncopyable_keys m sd = filter (\<lambda>k. is_dict (map_of sd k)) (map fst m)"

fun copy_from :: "state_dict \<Rightarrow> string \<times> tensor \<Rightarrow> string \<times> tensor" where
  "copy_from sd (k, t) = (case map_of sd k of Some (STensor t') \<Rightarrow> (k, t') | _ \<Rightarrow> (k, t))"

definition nn_load_state_dict :: "nn_module \<Rightarrow> state_dict \<Rightarrow> bool \<Rightarrow> py_error + nn_module" where
  "nn_load_state_dict m sd strict =
     (if uncopyable_keys m sd \<noteq> [] \<or>
         (strict \<and> (missing_keys m sd \<noteq> [] \<or> unexpected_keys m sd \<noteq> []))
      then Inl (LoadMismatch (missing_keys m sd) (unexpected_keys m sd @ uncopyable_keys m sd))
      else Inr (map (copy_from sd) m))"

text \<open>\<open>if destination is None: destination = {}\<close>.\<close>

definition dest_of :: "state_dict option \<Rightarrow> state_dict" where
  "dest_of destination = (case destination of None \<Rightarrow> [] | Some d \<Rightarrow> d)"

record adapter_wrapper =
  to_wrap :: nn_module
  adapter :: nn_module

text \<open>
  \<open>AdapterWrapper.state_dict(destination, prefix)\<close>. The base module writes into
  \<open>destination\<close> and returns it, so \<open>main_state_dict\<close> and \<open>destination\<close> are one
  dictionary: the value returned is that dictionary after the reserved key was set.
  \<open>keep_vars\<close> only selects whether the exported tensors are detached, and is dropped.
\<close>

definition state_dict :: "adapter_wrapper \<Rightarrow> state_dict option \<Rightarrow> string \<Rightarrow> state_dict" where
  "state_dict w destination prefix =
     (let destination = dest_of destination;
          main_state_dict = nn_state_dict (to_wrap w) destination prefix;
          adapter_state_dict = nn_state_dict (adapter w) [] prefix
      in dict_set (prefix @ ''adapters'') (SDict adapter_state_dict) main_state_dict)"

text \<open>
  Python's truth value of what was found under the reserved key: a dictionary is true
  when it is not empty. A tensor stands for a single number here and is true when that
  number is not zero.
\<close>

fun truthy :: "sval \<Rightarrow> bool" where
  "truthy (SDict d) = (d \<noteq> [])"
| "truthy (STensor t) = (t \<noteq> 0)"

text \<open>The adapter's import: the library refuses an argument that is not a dictionary.\<close>

fun load_adapter :: "nn_module \<Rightarrow> sval \<Rightarrow> bool \<Rightarrow> py_error + nn_module" where
  "load_adapter a (SDict d) strict = nn_load_state_dict a d strict"
| "load_adapter a (STensor t) strict = Inl TypeError"

text \<open>
  \<open>AdapterWrapper.load_state_dict(state_dict, strict)\<close>. \<open>pop\<close> changes the caller's
  dictionary, so the function returns that dictionary as the call leaves it, next to the
  outcome: the error raised, or the wrapper after the import.
\<close>

definition load_state_dict ::
  "adapter_wrapper \<Rightarrow> state_dict \<Rightarrow> bool \<Rightarrow> state_dict \<times> (py_error + adapter_wrapper)" where
  "load_state_dict w sd strict =
     (let (adapter_state_dict, sd') =
            (case map_of sd ''adapters'' of
               Some v \<Rightarrow> (v, dict_del ''adapters'' sd)
             | None \<Rightarrow> (SDict [], sd))
      in (sd',
          case nn_load_state_dict (to_wrap w) sd' strict of
            Inl e \<Rightarrow> Inl e
          | Inr b \<Rightarrow>
              (if truthy adapter_state_dict then
                 (case load_adapter (adapter w) adapter_state_dict strict of
                    Inl e \<Rightarrow> Inl e
                  | Inr a \<Rightarrow> Inr \<lparr> to_wrap = b, adapter = a \<rparr>)
               else Inr \<lparr> to_wrap = b, adapter = adapter w \<rparr>)))"

text \<open>
  The import as the specification words it: the reserved key is extracted when present,
  the remainder goes to the base module, and the extracted state, or the empty state, is
  then loaded into the adapter.
\<close>

definition import_state_spec ::
  "adapter_wrapper \<Rightarrow> state_dict \<Rightarrow> bool \<Rightarrow> py_error + adapter_wrapper" where
  "import_state_spec w sd strict =
     (let (adapter_state, rest) =
            (case map_of sd ''adapters'' of
               Some v \<Rightarrow> (v, dict_del ''adapters'' sd)
             | None \<Rightarrow> (SDict [], sd))
      in case nn_load_state_dict (to_wrap w) rest strict of
           Inl e \<Rightarrow> Inl e
         | Inr b \<Rightarrow>
             (case load_adapter (adapter w) adapter_state strict of
                Inl e \<Rightarrow> Inl e
              | Inr a \<Rightarrow> Inr \<lparr> to_wrap = b, adapter = a \<rparr>))"

section \<open>adapter/base.py: the PEFT model transform\<close>

text \<open>
  All parameters of a module tree, in registration order: a module's own parameters,
  then those of its children; for a wrapper, those of \<open>to_wrap\<close>, then those of \<open>adapter\<close>.
\<close>

fun all_params :: "module \<Rightarrow> param list"
  and all_params_children :: "(string \<times> module) list \<Rightarrow> param list" where
  "all_params (Module attrs ps cs) = map snd ps @ all_params_children cs"
| "all_params (AdapterParallelAdd b a) = all_params b @ all_params a"
| "all_params_children [] = []"
| "all_params_children ((n, c) # cs) = all_params c @ all_params_children cs"

text \<open>
  A module is trainable when each of its parameters is: what the specification's data
  model says of an adapter at construction.
\<close>

definition trainable :: "module \<Rightarrow> bool" where
  "trainable a = list_all snd (all_params a)"

definition frozen_param :: "param \<Rightarrow> param" where
  "frozen_param p = (fst p, False)"

text \<open>
  Modelled from the spec: \<open>MegatronParallel.freeze\<close>, which \<open>model_fn\<close> calls, is not among
  the source files. The specification has it mark every parameter the model owns as
  non-trainable.
\<close>

fun freeze :: "module \<Rightarrow> module"
  and freeze_children :: "(string \<times> module) list \<Rightarrow> (string \<times> module) list" where
  "freeze (Module attrs ps cs) =
     Module attrs (map (\<lambda>(k, p). (k, frozen_param p)) ps) (freeze_children cs)"
| "freeze (AdapterParallelAdd b a) = AdapterParallelAdd (freeze b) (freeze a)"
| "freeze_children [] = []"
| "freeze_children ((n, c) # cs) = (n, freeze c) # freeze_children cs"

text \<open>
  Modelled from the spec: \<open>MegatronParallel.walk\<close>, which \<open>model_fn\<close> calls, is not among
  the source files. The specification has it traverse the module tree depth-first, parent
  before children, siblings in declaration order, and call the transform on every module
  with the module's name. A result that differs from the module replaces it, and the walk
  does not enter the module it has just inserted; otherwise the walk goes on into the
  children. The children of a wrapper are its two sub-modules, under the names \<open>to_wrap\<close>
  and \<open>adapter\<close>. The root has no name. An error raised by the transform ends the walk.
\<close>

fun walk :: "(module \<Rightarrow> string option \<Rightarrow> py_error + module) \<Rightarrow> string option \<Rightarrow> module
               \<Rightarrow> py_error + module"
  and walk_children :: "(module \<Rightarrow> string option \<Rightarrow> py_error + module) \<Rightarrow> (string \<times> module) list
               \<Rightarrow> py_error + (string \<times> module) list" where
  "walk f name (Module attrs ps cs) =
     (case f (Module attrs ps cs) name of
        Inl e \<Rightarrow> Inl e
      | Inr m' \<Rightarrow>
          if m' \<noteq> Module attrs ps cs then Inr m'
          else (case walk_children f cs of
                  Inl e \<Rightarrow> Inl e
                | Inr cs' \<Rightarrow> Inr (Module attrs ps cs')))"
| "walk f name (AdapterParallelAdd b a) =
     (case f (AdapterParallelAdd b a) name of
        Inl e \<Rightarrow> Inl e
      | Inr m' \<Rightarrow>
          if m' \<noteq> AdapterParallelAdd b a then Inr m'
          else (case walk f (Some ''to_wrap'') b of
                  Inl e \<Rightarrow> Inl e
                | Inr b' \<Rightarrow>
                    (case walk f (Some ''adapter'') a of
                       Inl e \<Rightarrow> Inl e
                     | Inr a' \<Rightarrow> Inr (AdapterParallelAdd b' a'))))"
| "walk_children f [] = Inr []"
| "walk_children f ((n, c) # cs) =
     (case walk f (Some n) c of
        Inl e \<Rightarrow> Inl e
      | Inr c' \<Rightarrow>
          (case walk_children f cs of
             Inl e \<Rightarrow> Inl e
           | Inr cs' \<Rightarrow> Inr ((n, c') # cs')))"

text \<open>
  \<open>peft_model_transform(wrap_fn)\<close> returns \<open>model_fn\<close>: first \<open>m.freeze()\<close>, then
  \<open>m.walk(wrap_fn)\<close>.
\<close>

definition peft_model_transform ::
  "(module \<Rightarrow> string option \<Rightarrow> py_error + module) \<Rightarrow> module \<Rightarrow> py_error + module" where
  "peft_model_transform wrap_fn m = walk wrap_fn None (freeze m)"

text \<open>
  \<open>wraps_of P m m'\<close>: the tree \<open>m'\<close> is the tree \<open>m\<close> in which some plain modules are
  wrapped, each together with an adapter that satisfies \<open>P\<close>, and nothing else differs.
  \<open>inserted m m'\<close> lists those adapters.
\<close>

fun wraps_of :: "(module \<Rightarrow> bool) \<Rightarrow> module \<Rightarrow> module \<Rightarrow> bool"
  and wraps_of_children :: "(module \<Rightarrow> bool) \<Rightarrow> (string \<times> module) list \<Rightarrow> (string \<times> module) list \<Rightarrow> bool" where
  "wraps_of P (Module attrs ps cs) m' =
     (case m' of
        AdapterParallelAdd b a \<Rightarrow> b = Module attrs ps cs \<and> P a
      | Module attrs' ps' cs' \<Rightarrow> attrs' = attrs \<and> ps' = ps \<and> wraps_of_children P cs cs')"
| "wraps_of P (AdapterParallelAdd b a) m' =
     (case m' of
        AdapterParallelAdd b' a' \<Rightarrow> wraps_of P b b' \<and> wraps_of P a a'
      | Module attrs' ps' cs' \<Rightarrow> False)"
| "wraps_of_children P [] cs' = (cs' = [])"
| "wraps_of_children P ((n, c) # cs) cs' =
     (case cs' of
        [] \<Rightarrow> False
      | (n', c') # cs'' \<Rightarrow> n' = n \<and> wraps_of P c c' \<and> wraps_of_children P cs cs'')"

fun inserted :: "module \<Rightarrow> module \<Rightarrow> module list"
  and inserted_children :: "(string \<times> module) list \<Rightarrow> (string \<times> module) list \<Rightarrow> module list" where
  "inserted (Module attrs ps cs) m' =
     (case m' of
        AdapterParallelAdd b a \<Rightarrow> [a]
      | Module attrs' ps' cs' \<Rightarrow> inserted_children cs cs')"
| "inserted (AdapterParallelAdd b a) m' =
     (case m' of
        AdapterParallelAdd b' a' \<Rightarrow> inserted b b' @ inserted a a'
      | Module attrs' ps' cs' \<Rightarrow> [])"
| "inserted_children [] cs' = []"
| "inserted_children ((n, c) # cs) cs' =
     (case cs' of
        [] \<Rightarrow> []
      | (n', c') # cs'' \<Rightarrow> inserted c c' @ inserted_children cs cs'')"

text \<open>The entries a plain module exports under a prefix, in registration order.\<close>

definition prefixed :: "string \<Rightarrow> nn_module \<Rightarrow> state_dict" where
  "prefixed p m = map (\<lambda>(k, t). (p @ k, STensor t)) m"

section \<open>Example inputs\<close>

definition mk_ex :: "adapter_args \<Rightarrow> module" where
  "mk_ex a = Module [(''in_features'', in_features a), (''out_features'', out_features a)]
               [(''linear_in.weight'', (1, True)), (''linear_out.weight'', (0, True))] []"

definition cfg_ex :: LoRA where
  "cfg_ex = \<lparr> target_modules = [''linear_qkv'', ''linear_proj''], lora_dim = 32,
              lora_alpha = 32, lora_dropout = 0, lora_dropout_position = Post \<rparr>"

definition cfg_foo :: LoRA where
  "cfg_foo = \<lparr> target_modules = [''linear_foo''], lora_dim = 32,
               lora_alpha = 32, lora_dropout = 0, lora_dropout_position = Post \<rparr>"

definition linear_ex :: module where
  "linear_ex = Module [(''in_features'', 768), (''out_features'', 192)]
                 [(''weight'', (7, True))] []"

definition w_ex :: adapter_wrapper where
  "w_ex = \<lparr> to_wrap = [(''weight'', 7)], adapter = [(''linear_in.weight'', 1), (''linear_out.weight'', 0)] \<rparr>"

definition w_fresh :: adapter_wrapper where
  "w_fresh = \<lparr> to_wrap = [(''weight'', 3)], adapter = [(''linear_in.weight'', 4), (''linear_out.weight'', 0)] \<rparr>"

definition w_clash :: adapter_wrapper where
  "w_clash = \<lparr> to_wrap = [(''adapters'', 5)], adapter = [(''linear_in.weight'', 1)] \<rparr>"

definition w_clash_fresh :: adapter_wrapper where
  "w_clash_fresh = \<lparr> to_wrap = [(''adapters'', 2)], adapter = [(''linear_in.weight'', 3)] \<rparr>"

definition sd_empty_adapters :: state_dict where
  "sd_empty_adapters = [(''weight'', STensor 9), (''adapters'', SDict [])]"

definition sd_base_only :: state_dict where
  "sd_base_only = [(''weight'', STensor 9)]"

definition sd_full :: state_dict where
  "sd_full = [(''weight'', STensor 9),
     (''adapters'', SDict [(''linear_in.weight'', STensor 5), (''linear_out.weight'', STensor 6)])]"

definition model_ex :: module where
  "model_ex = Module [] [(''embedding'', (3, True))]
     [(''linear_qkv'', linear_ex),
      (''linear_fc1'', Module [(''in_features'', 768), (''out_features'', 3072)] [(''weight'', (8, True))] [])]"

definition model_ex_peft :: module where
  "model_ex_peft = Module [] [(''embedding'', (3, False))]
     [(''linear_qkv'',
         AdapterParallelAdd (Module [(''in_features'', 768), (''out_features'', 192)]
                               [(''weight'', (7, False))] [])
           (mk_ex (lora_args cfg_ex 768 768 False))),
      (''linear_fc1'',
         Module [(''in_features'', 768), (''out_features'', 3072)] [(''weight'', (8, False))] [])]"

section \<open>Properties of the transform\<close>

lemma getattr_linear_ex:
  "getattr linear_ex ''in_features'' = Inr 768" "getattr linear_ex ''out_features'' = Inr 192"
  by (simp_all add: linear_ex_def)

text \<open>
  C1. For a target module with local feature counts \<open>inp\<close> and \<open>out\<close> and world size
  \<open>T\<close>: under the names \<open>linear_qkv\<close> and \<open>linear_fc1\<close> the adapter is constructed with
  \<open>in_features = inp\<close>, \<open>out_features = out * T\<close> and \<open>input_is_parallel = False\<close>; under
  the names \<open>linear_proj\<close> and \<open>linear_fc2\<close> with \<open>in_features = inp * T\<close>,
  \<open>out_features = out\<close> and \<open>input_is_parallel = True\<close>. It holds for every \<open>T\<close>.
\<close>

theorem transform_dims:
  assumes "n \<in> set (target_modules cfg)"
    and "getattr m ''in_features'' = Inr inp"
    and "getattr m ''out_features'' = Inr out"
  shows "(n = ''linear_qkv'' \<or> n = ''linear_fc1'' \<longrightarrow>
           (\<exists>a. transform T mk cfg m (Some n) = Inr (AdapterParallelAdd m (mk a)) \<and>
                in_features a = inp \<and> out_features a = out * T \<and> \<not> input_is_parallel a)) \<and>
         (n = ''linear_proj'' \<or> n = ''linear_fc2'' \<longrightarrow>
           (\<exists>a. transform T mk cfg m (Some n) = Inr (AdapterParallelAdd m (mk a)) \<and>
                in_features a = inp * T \<and> out_features a = out \<and> input_is_parallel a))"
  using assms by (auto simp: transform_def lora_args_def)

theorem transform_dims_witness:
  "''linear_qkv'' \<in> set (target_modules cfg_ex) \<and>
   (\<exists>a. transform 4 mk_ex cfg_ex linear_ex (Some ''linear_qkv'')
          = Inr (AdapterParallelAdd linear_ex (mk_ex a)) \<and>
        in_features a = 768 \<and> out_features a = 192 * 4 \<and> \<not> input_is_parallel a)"
proof -
  have h: "''linear_qkv'' \<in> set (target_modules cfg_ex)" by (simp add: cfg_ex_def)
  from transform_dims [OF h getattr_linear_ex, of 4 mk_ex] show ?thesis using h by simp
qed

text \<open>
  C4. A target name that is none of the four recognised layer names is to fail fast with
  a configuration error. The code misses that case: the second branch, which its own
  comment reserves for \<open>linear_proj\<close> and \<open>linear_fc2\<close>, is taken by every target name
  other than \<open>linear_qkv\<close> and \<open>linear_fc1\<close>. Under the target set \<open>[linear_foo]\<close> the
  module of that name raises nothing and is wrapped, its adapter sized by the
  row-parallel rule.
\<close>

theorem transform_unrecognized_name:
  "transform 4 mk_ex cfg_foo linear_ex (Some ''linear_foo'')
     = Inr (AdapterParallelAdd linear_ex (mk_ex (lora_args cfg_foo (768 * 4) 192 True))) \<and>
   transform 4 mk_ex cfg_foo linear_ex (Some ''linear_foo'') \<noteq> Inl ConfigurationError"
  by (simp add: transform_def cfg_foo_def linear_ex_def)

text \<open>
  C8, as it is written, fails: applied to a module that is already a wrapper, under a
  target name, the transform is neither a no-op nor a \<open>DoubleWrapError\<close>. Reading
  \<open>in_features\<close> on the wrapper raises \<open>AttributeError\<close>.
\<close>

theorem transform_wrapped_counterexample:
  "transform 4 mk_ex cfg_ex (AdapterParallelAdd linear_ex (mk_ex (lora_args cfg_ex 768 768 False)))
       (Some ''linear_qkv'')
     = Inl AttributeError \<and>
   transform 4 mk_ex cfg_ex (AdapterParallelAdd linear_ex (mk_ex (lora_args cfg_ex 768 768 False)))
       (Some ''linear_qkv'')
     \<noteq> Inr (AdapterParallelAdd linear_ex (mk_ex (lora_args cfg_ex 768 768 False))) \<and>
   transform 4 mk_ex cfg_ex (AdapterParallelAdd linear_ex (mk_ex (lora_args cfg_ex 768 768 False)))
       (Some ''linear_qkv'')
     \<noteq> Inl DoubleWrapError"
  by (simp add: transform_def cfg_ex_def)

text \<open>
  C8, amended. For every module that is already a wrapper, the transform is a no-op when
  the name is not a target and fails with \<open>AttributeError\<close> when it is; there is no
  \<open>DoubleWrapError\<close>. In neither case does it return a wrapper around the wrapper.
\<close>

theorem transform_wrapped:
  "transform T mk cfg (AdapterParallelAdd b a) name
     = (if name_in name (target_modules cfg) then Inl AttributeError
        else Inr (AdapterParallelAdd b a)) \<and>
   transform T mk cfg (AdapterParallelAdd b a) name
     \<noteq> Inr (AdapterParallelAdd (AdapterParallelAdd b a) a')"
  by (simp add: transform_def)

section \<open>Properties of the forward pass\<close>

text \<open>
  C3, as it is written, fails in its last sentence: the base forward may not return a
  primary output alone. The first statement of \<open>forward\<close> unpacks the result into output
  and bias. A lone tensor that cannot be iterated raises \<open>TypeError\<close>; a lone tensor of
  two rows is split, its rows taken for output and bias.
\<close>

theorem forward_lone_counterexample:
  "forward (\<lambda>t. None) (\<lambda>x. Inr (Tensor 5)) (\<lambda>x. Inr (Tensor 1)) (Tensor (0::int))
     = Inl TypeError \<and>
   forward (\<lambda>t. Some [3, 4]) (\<lambda>x. Inr (Tensor 5)) (\<lambda>x. Inr (Tensor 1)) (Tensor (0::int))
     = Inr (Tuple [Tensor 4, Tensor 4])"
  by (simp add: forward_def)

text \<open>
  C3, amended. The base forward returns a pair of output and bias. When the output is a
  tensor, the adapter runs on the input \<open>x\<close>; when the output is itself a pair of a tensor
  and an intermediate normalized value, the adapter runs on that value. In both cases the
  result is the output tensor plus the adapter's delta, paired with the bias unchanged.
  A base forward that returns a lone tensor which cannot be iterated makes \<open>forward\<close>
  raise \<open>TypeError\<close>.
\<close>

theorem forward_pair:
  "(base_fwd x = Inr (Tuple [Tensor lo, bias]) \<and> adapter_fwd x = Inr (Tensor d) \<longrightarrow>
      forward rows base_fwd adapter_fwd x = Inr (Tuple [Tensor (lo + d), bias])) \<and>
   (base_fwd x = Inr (Tuple [Tuple [Tensor lo, lnorm], bias]) \<and> adapter_fwd lnorm = Inr (Tensor d) \<longrightarrow>
      forward rows base_fwd adapter_fwd x = Inr (Tuple [Tensor (lo + d), bias])) \<and>
   (base_fwd x = Inr (Tensor t) \<and> rows t = None \<longrightarrow>
      forward rows base_fwd adapter_fwd x = Inl TypeError)"
  by (simp add: forward_def)

theorem forward_pair_witness:
  "forward (\<lambda>t. None) (\<lambda>x. Inr (Tuple [Tensor 5, PyNone])) (\<lambda>x. Inr (Tensor 1)) (Tensor (0::int))
     = Inr (Tuple [Tensor 6, PyNone]) \<and>
   forward (\<lambda>t. None) (\<lambda>x. Inr (Tuple [Tuple [Tensor 5, Tensor 2], PyNone]))
       (\<lambda>v. case v of Tensor t \<Rightarrow> Inr (Tensor (t * 10)) | _ \<Rightarrow> Inl TypeError) (Tensor (0::int))
     = Inr (Tuple [Tensor 25, PyNone]) \<and>
   forward (\<lambda>t. None) (\<lambda>x. Inr (Tensor 7)) (\<lambda>x. Inr (Tensor 1)) (Tensor (0::int))
     = Inl TypeError"
  using forward_pair [where base_fwd = "\<lambda>x. Inr (Tuple [Tensor 5, PyNone])" and x = "Tensor (0::int)"
          and lo = 5 and bias = PyNone and adapter_fwd = "\<lambda>x. Inr (Tensor 1)" and d = 1
          and lnorm = "Tensor 2" and rows = "\<lambda>t. None" and t = 0]
        forward_pair [where base_fwd = "\<lambda>x. Inr (Tuple [Tuple [Tensor 5, Tensor 2], PyNone])"
          and x = "Tensor (0::int)" and lo = 5 and bias = PyNone
          and adapter_fwd = "\<lambda>v. case v of Tensor t \<Rightarrow> Inr (Tensor (t * 10)) | _ \<Rightarrow> Inl TypeError"
          and d = 20 and lnorm = "Tensor 2" and rows = "\<lambda>t. None" and t = 0]
        forward_pair [where base_fwd = "\<lambda>x. Inr (Tensor 7)" and x = "Tensor (0::int)"
          and lo = 5 and bias = PyNone and adapter_fwd = "\<lambda>x. Inr (Tensor 1)" and d = 1
          and lnorm = "Tensor 2" and rows = "\<lambda>t. None" and t = 7]
  by simp

section \<open>Properties of state export and import\<close>

lemma map_of_dict_set: "map_of (dict_set k v d) k' = (if k' = k then Some v else map_of d k')"
  by (induction d) auto

lemma keys_dom: "set (dict_keys d) = dom (map_of d)"
  by (simp add: dict_keys_def dom_map_of_conv_image_fst)

lemma keys_dict_set: "set (dict_keys (dict_set k v d)) = insert k (set (dict_keys d))"
  unfolding keys_dom by (auto simp: map_of_dict_set dom_def)

lemma map_of_dict_del: "map_of (dict_del k d) k' = (if k' = k then None else map_of d k')"
  by (induction d) auto

lemma dict_del_dict_set: "dict_del k (dict_set k v d) = dict_del k d"
  by (induction d) auto

lemma dict_del_absent: "map_of d k = None \<Longrightarrow> dict_del k d = d"
  by (induction d) (auto split: if_splits)

lemma map_of_nn_state_dict:
  "map_of (nn_state_dict m dest p) = map_of dest ++ map_of (prefixed p (rev m))"
proof (induction m arbitrary: dest)
  case Nil
  show ?case by (simp add: prefixed_def)
next
  case (Cons x m)
  obtain k t where x: "x = (k, t)" by (cases x)
  let ?d = "dict_set (p @ k) (STensor t) dest"
  have a: "map_of ?d = map_of dest ++ [p @ k \<mapsto> STensor t]"
    by (rule ext) (simp add: map_of_dict_set map_add_def)
  have b: "map_of (prefixed p (rev (x # m))) = [p @ k \<mapsto> STensor t] ++ map_of (prefixed p (rev m))"
    by (simp add: prefixed_def x)
  have "map_of (nn_state_dict (x # m) dest p) = map_of ?d ++ map_of (prefixed p (rev m))"
    using Cons.IH [of ?d] by (simp add: x)
  also have "\<dots> = map_of dest ++ map_of (prefixed p (rev (x # m)))"
    unfolding a b by (simp only: map_add_assoc)
  finally show ?case .
qed

lemma dom_prefixed: "dom (map_of (prefixed p m)) = (\<lambda>k. p @ k) ` set (map fst m)"
  by (force simp: prefixed_def dom_map_of_conv_image_fst image_image)

lemma keys_nn_state_dict:
  "set (dict_keys (nn_state_dict m dest p)) = set (dict_keys dest) \<union> (\<lambda>k. p @ k) ` set (map fst m)"
  unfolding keys_dom map_of_nn_state_dict dom_map_add dom_prefixed by auto


lemma map_of_prefixed_nil: "map_of (prefixed [] xs) k = map_option STensor (map_of xs k)"
  by (induction xs) (auto simp: prefixed_def)

lemma map_of_export:
  assumes "distinct (map fst m)"
  shows "map_of (nn_state_dict m [] []) k = map_option STensor (map_of m k)"
proof -
  have "map_of (rev m) = map_of m"
    using assms by (subst map_of_inject_set) (simp_all add: rev_map [symmetric])
  then show ?thesis
    by (simp add: map_of_nn_state_dict map_of_prefixed_nil)
qed

lemma copy_all:
  assumes "\<forall>(k, t) \<in> set m. map_of sd k = Some (STensor t)"
    and "map fst m' = map fst m"
  shows "map (copy_from sd) m' = m"
  using assms
proof (induction m' arbitrary: m)
  case Nil
  then show ?case by simp
next
  case (Cons x m')
  then obtain y m0 where m: "m = y # m0" by (cases m) auto
  obtain k t where y: "y = (k, t)" by (cases y)
  obtain k' t' where x: "x = (k', t')" by (cases x)
  from Cons.prems m x y have kk: "k' = k" and r: "map fst m' = map fst m0" by auto
  from Cons.prems(1) m y have "map_of sd k = Some (STensor t)" by auto
  moreover have "map (copy_from sd) m' = m0"
    using Cons.IH [OF _ r] Cons.prems(1) m by auto
  ultimately show ?case by (simp add: m x y kk)
qed

lemma load_export:
  assumes d: "distinct (map fst m)" and k: "map fst m' = map fst m"
  shows "nn_load_state_dict m' (nn_state_dict m [] []) strict = Inr m"
proof -
  let ?sd = "nn_state_dict m [] []"
  have look: "map_of ?sd k = map_option STensor (map_of m k)" for k
    using d by (rule map_of_export)
  have keys: "set (dict_keys ?sd) = set (map fst m)"
    using keys_nn_state_dict [of m "[]" "[]"] by (simp add: dict_keys_def)
  have inm: "\<forall>(k, t) \<in> set m. map_of ?sd k = Some (STensor t)"
    using d by (auto simp: look)
  have mis: "missing_keys m' ?sd = []"
    unfolding missing_keys_def k filter_empty_conv
    by (auto simp: look map_of_eq_None_iff)
  have unx: "unexpected_keys m' ?sd = []"
    unfolding unexpected_keys_def k filter_empty_conv using keys by auto
  have unc: "uncopyable_keys m' ?sd = []"
    unfolding uncopyable_keys_def k filter_empty_conv
    by (auto simp: look map_of_eq_None_iff image_iff) (metis is_dict.simps(2) is_dict.simps(3) option.exhaust option.simps(8,9))
  show ?thesis
    by (simp add: nn_load_state_dict_def mis unx unc copy_all [OF inm k])
qed

lemma export_empty_iff: "nn_state_dict m [] p = [] \<longleftrightarrow> m = []"
proof
  assume "nn_state_dict m [] p = []"
  then have "set (dict_keys (nn_state_dict m [] p)) = {}" by (simp add: dict_keys_def)
  then show "m = []" using keys_nn_state_dict [of m "[]" p] by (simp add: dict_keys_def)
qed simp

lemma dict_set_fresh: "k \<notin> set (dict_keys d) \<Longrightarrow> dict_set k v d = d @ [(k, v)]"
  by (induction d) (auto simp: dict_keys_def)

text \<open>
  C5, as it is written, fails: a base module that has a tensor of its own under the
  reserved name \<open>adapters\<close> exports the reserved key among its own keys, and the export of
  the wrapper replaces that entry of the base module with the adapter's state.
\<close>

theorem state_dict_clash_counterexample:
  "nn_state_dict (to_wrap w_clash) [] [] = [(''adapters'', STensor 5)] \<and>
   state_dict w_clash None [] = [(''adapters'', SDict [(''linear_in.weight'', STensor 1)])]"
  by (simp add: state_dict_def dest_of_def w_clash_def)

text \<open>
  C5, amended. For every wrapper, destination and prefix such that the base module's
  export holds nothing under the reserved key \<open>prefix + adapters\<close>: the exported dictionary
  is the base module's export, every entry unchanged, followed by the single reserved key,
  which holds the adapter's whole state, a dictionary with one entry per adapter tensor.
  No key of the adapter is placed among the base module's keys.
\<close>

theorem state_dict_namespace:
  assumes "prefix @ ''adapters''
             \<notin> set (dict_keys (nn_state_dict (to_wrap w) (dest_of destination) prefix))"
  shows "state_dict w destination prefix
           = nn_state_dict (to_wrap w) (dest_of destination) prefix
             @ [(prefix @ ''adapters'', SDict (nn_state_dict (adapter w) [] prefix))] \<and>
         set (dict_keys (nn_state_dict (adapter w) [] prefix))
           = (\<lambda>k. prefix @ k) ` set (map fst (adapter w))"
proof -
  have e: "set (dict_keys []) = {}" by (simp add: dict_keys_def)
  show ?thesis
    using assms by (simp add: state_dict_def Let_def dict_set_fresh keys_nn_state_dict e)
qed

theorem state_dict_namespace_witness:
  "''p.adapters'' \<notin> set (dict_keys (nn_state_dict (to_wrap w_ex) (dest_of None) ''p.'')) \<and>
   state_dict w_ex None ''p.''
     = [(''p.weight'', STensor 7),
        (''p.adapters'',
           SDict [(''p.linear_in.weight'', STensor 1), (''p.linear_out.weight'', STensor 0)])]"
proof -
  have h: "''p.'' @ ''adapters''
             \<notin> set (dict_keys (nn_state_dict (to_wrap w_ex) (dest_of None) ''p.''))"
    by (simp add: w_ex_def dest_of_def dict_keys_def)
  from state_dict_namespace [OF h] h show ?thesis
    by (simp add: w_ex_def dest_of_def)
qed

text \<open>
  C6, as it is written, fails: with the reserved key mapped to an empty dictionary the
  extracted state is not loaded into the adapter. A strict import of it succeeds and
  leaves the adapter as it was, where loading the empty state into the adapter, as the
  specification words it, reports the adapter's tensors missing.
\<close>

theorem load_state_dict_empty_counterexample:
  "snd (load_state_dict w_ex sd_empty_adapters True)
     = Inr \<lparr> to_wrap = [(''weight'', 9)], adapter = adapter w_ex \<rparr> \<and>
   import_state_spec w_ex sd_empty_adapters True
     = Inl (LoadMismatch [''linear_in.weight'', ''linear_out.weight''] [])"
  by (simp add: load_state_dict_def import_state_spec_def sd_empty_adapters_def w_ex_def
        nn_load_state_dict_def missing_keys_def unexpected_keys_def uncopyable_keys_def
        dict_keys_def)

text \<open>
  C6, amended. (i) If the reserved key is present and holds a non-empty dictionary, the
  key is removed, the remainder goes to the base module's import with the caller's strict
  flag, and the extracted dictionary is then loaded into the adapter with the same flag.
  (ii) If the reserved key is absent, the whole dictionary goes to the base module's
  import; the adapter's import is not invoked, so the import succeeds whenever the base
  module's does, and the adapter keeps the tensors it had.
\<close>

theorem load_state_dict_cases:
  "(map_of sd ''adapters'' = Some (SDict d) \<and> d \<noteq> [] \<longrightarrow>
      snd (load_state_dict w sd strict)
        = (case nn_load_state_dict (to_wrap w) (dict_del ''adapters'' sd) strict of
             Inl e \<Rightarrow> Inl e
           | Inr b \<Rightarrow>
               (case nn_load_state_dict (adapter w) d strict of
                  Inl e \<Rightarrow> Inl e
                | Inr a \<Rightarrow> Inr \<lparr> to_wrap = b, adapter = a \<rparr>))) \<and>
   (map_of sd ''adapters'' = None \<longrightarrow>
      snd (load_state_dict w sd strict)
        = (case nn_load_state_dict (to_wrap w) sd strict of
             Inl e \<Rightarrow> Inl e
           | Inr b \<Rightarrow> Inr \<lparr> to_wrap = b, adapter = adapter w \<rparr>))"
  by (simp add: load_state_dict_def split: sum.splits)

theorem load_state_dict_cases_witness:
  "map_of sd_full ''adapters''
     = Some (SDict [(''linear_in.weight'', STensor 5), (''linear_out.weight'', STensor 6)]) \<and>
   snd (load_state_dict w_ex sd_full True)
     = Inr \<lparr> to_wrap = [(''weight'', 9)],
             adapter = [(''linear_in.weight'', 5), (''linear_out.weight'', 6)] \<rparr> \<and>
   map_of sd_base_only ''adapters'' = None \<and>
   snd (load_state_dict w_ex sd_base_only True)
     = Inr \<lparr> to_wrap = [(''weight'', 9)], adapter = adapter w_ex \<rparr>"
  using load_state_dict_cases [of sd_full
          "[(''linear_in.weight'', STensor 5), (''linear_out.weight'', STensor 6)]" w_ex True]
        load_state_dict_cases [of sd_base_only "[]" w_ex True]
  by (simp add: sd_full_def sd_base_only_def w_ex_def nn_load_state_dict_def missing_keys_def
        unexpected_keys_def uncopyable_keys_def dict_keys_def)

text \<open>
  C7, as it is written, fails: a base module that has a tensor of its own under the
  reserved name \<open>adapters\<close> does not survive the round trip. The export overwrites that
  entry with the adapter's state; the strict import then reports the key missing, and the
  lenient import leaves the fresh wrapper's own value in place.
\<close>

theorem state_round_trip_counterexample:
  "snd (load_state_dict w_clash_fresh (state_dict w_clash None []) True)
     = Inl (LoadMismatch [''adapters''] []) \<and>
   snd (load_state_dict w_clash_fresh (state_dict w_clash None []) False)
     = Inr \<lparr> to_wrap = [(''adapters'', 2)], adapter = [(''linear_in.weight'', 1)] \<rparr> \<and>
   snd (load_state_dict w_clash_fresh (state_dict w_clash None []) False) \<noteq> Inr w_clash"
  by (simp add: load_state_dict_def state_dict_def dest_of_def w_clash_def w_clash_fresh_def
        nn_load_state_dict_def missing_keys_def unexpected_keys_def uncopyable_keys_def
        dict_keys_def)

text \<open>
  C7, amended. For every wrapper \<open>w\<close> whose base module has no tensor named \<open>adapters\<close>,
  and every wrapper \<open>w'\<close> of the same architecture (the same tensor names in the base
  module and in the adapter, each name once), importing into \<open>w'\<close> the state exported
  from \<open>w\<close> succeeds, strict or not, and leaves \<open>w'\<close> with exactly the tensors of \<open>w\<close> in
  both sub-modules.
\<close>

theorem state_round_trip:
  assumes db: "distinct (map fst (to_wrap w))"
    and da: "distinct (map fst (adapter w))"
    and kb: "map fst (to_wrap w') = map fst (to_wrap w)"
    and ka: "map fst (adapter w') = map fst (adapter w)"
    and free: "''adapters'' \<notin> set (map fst (to_wrap w))"
  shows "snd (load_state_dict w' (state_dict w None []) strict) = Inr w"
proof -
  let ?B = "nn_state_dict (to_wrap w) [] []"
  let ?A = "nn_state_dict (adapter w) [] []"
  have sd: "state_dict w None [] = dict_set ''adapters'' (SDict ?A) ?B"
    by (simp add: state_dict_def dest_of_def)
  have absent: "map_of ?B ''adapters'' = None"
    using free by (simp add: map_of_export [OF db] map_of_eq_None_iff)
  have rest: "dict_del ''adapters'' (dict_set ''adapters'' (SDict ?A) ?B) = ?B"
    by (simp add: dict_del_dict_set dict_del_absent [OF absent])
  have base: "nn_load_state_dict (to_wrap w') ?B strict = Inr (to_wrap w)"
    by (rule load_export [OF db kb])
  have adp: "nn_load_state_dict (adapter w') ?A strict = Inr (adapter w)"
    by (rule load_export [OF da ka])
  have gen: "snd (load_state_dict w' (state_dict w None []) strict)
      = (if ?A \<noteq> [] then Inr \<lparr> to_wrap = to_wrap w, adapter = adapter w \<rparr>
         else Inr \<lparr> to_wrap = to_wrap w, adapter = adapter w' \<rparr>)"
    by (simp add: load_state_dict_def sd map_of_dict_set rest base adp)
  show ?thesis
  proof (cases "adapter w = []")
    case True
    then have "adapter w' = []" using ka by simp
    then show ?thesis using True by (simp add: gen)
  next
    case False
    then have "?A \<noteq> []" by (simp add: export_empty_iff)
    then show ?thesis by (simp add: gen)
  qed
qed

theorem state_round_trip_witness:
  "snd (load_state_dict w_fresh (state_dict w_ex None []) True) = Inr w_ex"
proof -
  have "distinct (map fst (to_wrap w_ex))" "distinct (map fst (adapter w_ex))"
    "map fst (to_wrap w_fresh) = map fst (to_wrap w_ex)"
    "map fst (adapter w_fresh) = map fst (adapter w_ex)"
    "''adapters'' \<notin> set (map fst (to_wrap w_ex))"
    by (simp_all add: w_ex_def w_fresh_def)
  then show ?thesis by (rule state_round_trip)
qed




text \<open>
  C10. If the incoming dictionary maps the reserved key to an empty dictionary, the
  outcome of the import is the outcome of the base module's import alone, strict or not:
  on success the adapter is the one the wrapper had, and no error comes from the adapter.
  It is the outcome of importing the same dictionary without the reserved key.
\<close>

theorem load_state_dict_empty_adapters:
  assumes "map_of sd ''adapters'' = Some (SDict [])"
  shows "snd (load_state_dict w sd strict)
           = (case nn_load_state_dict (to_wrap w) (dict_del ''adapters'' sd) strict of
                Inl e \<Rightarrow> Inl e
              | Inr b \<Rightarrow> Inr \<lparr> to_wrap = b, adapter = adapter w \<rparr>) \<and>
         snd (load_state_dict w sd strict)
           = snd (load_state_dict w (dict_del ''adapters'' sd) strict)"
  using assms by (simp add: load_state_dict_def map_of_dict_del split: sum.splits)

theorem load_state_dict_empty_adapters_witness:
  "map_of sd_empty_adapters ''adapters'' = Some (SDict []) \<and>
   snd (load_state_dict w_ex sd_empty_adapters True)
     = Inr \<lparr> to_wrap = [(''weight'', 9)], adapter = adapter w_ex \<rparr>"
proof -
  have h: "map_of sd_empty_adapters ''adapters'' = Some (SDict [])"
    by (simp add: sd_empty_adapters_def)
  have "nn_load_state_dict (to_wrap w_ex) (dict_del ''adapters'' sd_empty_adapters) True
          = Inr [(''weight'', 9)]"
    by (simp add: sd_empty_adapters_def w_ex_def nn_load_state_dict_def missing_keys_def
          unexpected_keys_def uncopyable_keys_def dict_keys_def)
  with load_state_dict_empty_adapters [OF h, of w_ex True] h show ?thesis by simp
qed

section \<open>Properties of the PEFT model transform\<close>

lemma all_params_freeze:
  "all_params (freeze m) = map frozen_param (all_params m)"
  "all_params_children (freeze_children cs) = map frozen_param (all_params_children cs)"
  by (induction m and cs rule: freeze_freeze_children.induct) (auto simp: frozen_param_def)

lemma transform_result:
  assumes "transform T mk cfg m name = Inr m'"
  shows "m' = m \<or> (\<exists>attrs ps cs args. m = Module attrs ps cs \<and> m' = AdapterParallelAdd m (mk args))"
  using assms by (cases m) (auto simp: transform_def split: if_splits sum.splits)

lemma walk_wraps:
  assumes P: "\<And>args. P (mk args)"
  shows "walk (transform T mk cfg) name m = Inr m' \<Longrightarrow> wraps_of P m m'"
    and "walk_children (transform T mk cfg) cs = Inr cs' \<Longrightarrow> wraps_of_children P cs cs'"
proof (induction "transform T mk cfg" name m and "transform T mk cfg" cs
    arbitrary: m' and cs' rule: walk_walk_children.induct)
  case (1 name attrs ps cs)
  then show ?case
    using P by (auto split: sum.splits if_splits dest!: transform_result)
next
  case (2 name b a)
  then show ?case
    using P by (auto split: sum.splits if_splits dest!: transform_result)
next
  case 3
  then show ?case by simp
next
  case (4 n c cs)
  then show ?case by (auto split: sum.splits)
qed

lemma filter_all_frozen:
  assumes "\<forall>p \<in> set xs. \<not> snd p"
  shows "filter (\<lambda>p. \<not> snd p) xs = xs" "filter snd xs = []"
  using assms by (induction xs) auto

lemma filter_all_trainable:
  assumes "list_all snd xs"
  shows "filter (\<lambda>p. \<not> snd p) xs = []" "filter snd xs = xs"
  using assms by (induction xs) auto

lemma wraps_params:
  "wraps_of trainable m0 m' \<Longrightarrow> \<forall>p \<in> set (all_params m0). \<not> snd p \<Longrightarrow>
     filter (\<lambda>p. \<not> snd p) (all_params m') = all_params m0 \<and>
     filter snd (all_params m') = concat (map all_params (inserted m0 m'))"
  "wraps_of_children trainable cs0 cs' \<Longrightarrow> \<forall>p \<in> set (all_params_children cs0). \<not> snd p \<Longrightarrow>
     filter (\<lambda>p. \<not> snd p) (all_params_children cs') = all_params_children cs0 \<and>
     filter snd (all_params_children cs') = concat (map all_params (inserted_children cs0 cs'))"
proof (induction trainable m0 m' and trainable cs0 cs' rule: wraps_of_wraps_of_children.induct)
  case (1 attrs ps cs m')
  show ?case
  proof (cases m')
    case (Module attrs' ps' cs')
    with 1 show ?thesis by (auto simp: filter_all_frozen)
  next
    case (AdapterParallelAdd b a)
    with 1 show ?thesis
      by (auto simp: filter_all_frozen filter_all_trainable trainable_def)
  qed
next
  case (2 b a m')
  then show ?case by (cases m') auto
next
  case (3 cs')
  then show ?case by simp
next
  case (4 n c cs cs')
  then show ?case by (cases cs') auto
qed

lemma frozen_freeze: "\<forall>p \<in> set (all_params (freeze m)). \<not> snd p"
  by (auto simp: all_params_freeze frozen_param_def)

lemma trainable_mk_ex: "trainable (mk_ex args)"
  by (simp add: trainable_def mk_ex_def)

text \<open>
  C2. The PEFT model transform freezes the model and walks the frozen model; the freeze
  comes first. When it completes, with a transform whose adapters are trainable at
  construction, the result is the frozen model with some plain modules wrapped together
  with new adapters: its non-trainable parameters are exactly the parameters the model
  had before, each now frozen, and its trainable parameters are exactly the parameters of
  the adapters the walk inserted.
\<close>

theorem peft_freeze_invariant:
  assumes ok: "peft_model_transform (transform T mk cfg) m = Inr m'"
    and tr: "\<And>args. trainable (mk args)"
  shows "peft_model_transform (transform T mk cfg) m = walk (transform T mk cfg) None (freeze m) \<and>
         wraps_of trainable (freeze m) m' \<and>
         filter (\<lambda>p. \<not> snd p) (all_params m') = map frozen_param (all_params m) \<and>
         filter snd (all_params m') = concat (map all_params (inserted (freeze m) m'))"
proof -
  have w: "wraps_of trainable (freeze m) m'"
    using ok walk_wraps(1) [of trainable mk T cfg None "freeze m" m'] tr
    by (simp add: peft_model_transform_def)
  from wraps_params(1) [OF w frozen_freeze] w show ?thesis
    by (simp add: peft_model_transform_def all_params_freeze)
qed

theorem peft_freeze_invariant_witness:
  "peft_model_transform (transform 4 mk_ex cfg_ex) model_ex = Inr model_ex_peft \<and>
   wraps_of trainable (freeze model_ex) model_ex_peft \<and>
   filter (\<lambda>p. \<not> snd p) (all_params model_ex_peft) = map frozen_param (all_params model_ex) \<and>
   filter snd (all_params model_ex_peft)
     = concat (map all_params (inserted (freeze model_ex) model_ex_peft))"
proof -
  have e: "peft_model_transform (transform 4 mk_ex cfg_ex) model_ex = Inr model_ex_peft"
    by (simp add: peft_model_transform_def model_ex_def model_ex_peft_def transform_def
          cfg_ex_def linear_ex_def frozen_param_def)
  from peft_freeze_invariant [OF e trainable_mk_ex] e show ?thesis by blast
qed

end
